theory Spec2Isabelle
  imports Complex_Main "HOL-Library.Word"
begin

section \<open>The values of the language\<close>

text \<open>
  The program is TypeScript. Its strings are sequences of 16-bit code units: \<open>length\<close>
  counts code units, and \<open>trim\<close> removes the white space and line terminators of the
  language from both ends. A string literal of the source is written \<open>js ''...''\<close>.
\<close>

type_synonym code_unit = "16 word"
type_synonym jsstring = "code_unit list"

definition js :: "string \<Rightarrow> jsstring" where
  "js s = map of_char s"

text \<open>
  White space and line terminators: TAB, LF, VT, FF, CR, SP, NBSP, the other space
  separators of Unicode (U+1680, U+2000 to U+200A, U+202F, U+205F, U+3000), LS, PS and
  the byte order mark U+FEFF.
\<close>

definition WhiteSpace :: "code_unit \<Rightarrow> bool" where
  "WhiteSpace c \<longleftrightarrow>
     c \<in> set [0x9, 0xA, 0xB, 0xC, 0xD, 0x20, 0xA0, 0x1680, 0x2028, 0x2029, 0x202F,
               0x205F, 0x3000, 0xFEFF]
     \<or> (0x2000 \<le> c \<and> c \<le> 0x200A)"

definition trim :: "jsstring \<Rightarrow> jsstring" where
  "trim s = rev (dropWhile WhiteSpace (rev (dropWhile WhiteSpace s)))"

text \<open>
  A \<open>number\<close> of the language is a double. The program only compares numbers and turns
  them into strings, so a number is modelled by its value: not-a-number, an infinity, or
  a finite value, which is a rational (every finite double is one, and the order of the
  doubles is the order of their values; minus zero is zero).
\<close>

datatype number = NaN | NegInfinity | PosInfinity | Finite rat

text \<open>\<open>a <= b\<close> of the language; every comparison with \<open>NaN\<close> is false.\<close>

fun num_le :: "number \<Rightarrow> number \<Rightarrow> bool" where
  "num_le NaN _ = False"
| "num_le _ NaN = False"
| "num_le NegInfinity _ = True"
| "num_le _ PosInfinity = True"
| "num_le (Finite a) (Finite b) = (a \<le> b)"
| "num_le _ _ = False"

text \<open>\<open>a >= b\<close> of the language.\<close>

definition num_ge :: "number \<Rightarrow> number \<Rightarrow> bool" where
  "num_ge a b = num_le b a"

text \<open>
  What the platform computes and the repository does not define is a parameter of the
  model: the conversion of a string to a number (the unary \<open>+\<close> of \<open>+enteredPeople\<close>), and the
  string of a finite number (the shortest decimal that reads back as the same double,
  padded with zeros or with an exponent where the language uses one). The model asks the
  platform for the string of a finite number only when the number is not an integer
  below \<open>2^53\<close> in magnitude.
\<close>

record platform =
  StringToNumber :: "jsstring \<Rightarrow> number"
  FiniteToString :: "rat \<Rightarrow> jsstring"

text \<open>The decimal digits of a natural number, most significant first.\<close>

fun digits :: "nat \<Rightarrow> jsstring" where
  "digits n =
     (if n < 10 then [0x30 + of_nat n]
      else digits (n div 10) @ [0x30 + of_nat (n mod 10)])"

text \<open>
  \<open>Number.prototype.toString\<close>: \<open>NaN\<close>, \<open>Infinity\<close>, \<open>-Infinity\<close>; an integer below
  \<open>2^53\<close> in magnitude is its decimal digits after its sign (up to there every integer
  is a double, and the shortest decimal that reads back as it is the integer itself);
  every other finite number is left to the platform.
\<close>

definition NumberToString :: "platform \<Rightarrow> number \<Rightarrow> jsstring" where
  "NumberToString pf x =
     (case x of
        NaN \<Rightarrow> js ''NaN''
      | NegInfinity \<Rightarrow> js ''-Infinity''
      | PosInfinity \<Rightarrow> js ''Infinity''
      | Finite q \<Rightarrow>
          if q = of_int \<lfloor>q\<rfloor> \<and> \<bar>q\<bar> < 2 ^ 53
          then (if q < 0 then js ''-'' else []) @ digits (nat \<bar>\<lfloor>q\<rfloor>\<bar>)
          else FiniteToString pf q)"

text \<open>A value of type \<open>string | number\<close>, and its \<open>toString()\<close>.\<close>

datatype jsvalue = Str jsstring | Num number

definition toString :: "platform \<Rightarrow> jsvalue \<Rightarrow> jsstring" where
  "toString pf v = (case v of Str s \<Rightarrow> s | Num x \<Rightarrow> NumberToString pf x)"

section \<open>Validation\<close>

text \<open>
  The interface \<open>Validatable\<close>: the value and five optional constraints; a constraint
  that is not set is \<open>None\<close>. The fields \<open>value\<close>, \<open>min\<close> and \<open>max\<close> of the source
  are \<open>input_value\<close>, \<open>min_value\<close> and \<open>max_value\<close> here.
\<close>

record Validatable =
  input_value :: jsvalue
  required :: "bool option"
  minLength :: "number option"
  maxLength :: "number option"
  min_value :: "number option"
  max_value :: "number option"

text \<open>
  The function \<open>validate\<close>, one \<open>if\<close> of the source after the other. \<open>input.required\<close> is
  tested for truth, the other four constraints for being set, and each of those four
  applies to one type of value only.
\<close>

definition validate :: "platform \<Rightarrow> Validatable \<Rightarrow> bool" where
  "validate pf input =
     (let isValid = True;
          isValid = (if required input = Some True
                     then isValid \<and> length (trim (toString pf (input_value input))) \<noteq> 0
                     else isValid);
          isValid = (case (minLength input, input_value input) of
                       (Some m, Str s) \<Rightarrow> isValid \<and> num_ge (Finite (of_nat (length s))) m
                     | _ \<Rightarrow> isValid);
          isValid = (case (maxLength input, input_value input) of
                       (Some m, Str s) \<Rightarrow> isValid \<and> num_le (Finite (of_nat (length s))) m
                     | _ \<Rightarrow> isValid);
          isValid = (case (min_value input, input_value input) of
                       (Some m, Num x) \<Rightarrow> isValid \<and> num_ge x m
                     | _ \<Rightarrow> isValid);
          isValid = (case (max_value input, input_value input) of
                       (Some m, Num x) \<Rightarrow> isValid \<and> num_le x m
                     | _ \<Rightarrow> isValid)
      in isValid)"

text \<open>The three constraint sets that \<open>gatherUserInput\<close> builds.\<close>

definition validateTitle :: "jsstring \<Rightarrow> Validatable" where
  "validateTitle enteredTitle =
     \<lparr>input_value = Str enteredTitle, required = Some True,
      minLength = Some (Finite 1), maxLength = Some (Finite 15),
      min_value = None, max_value = None\<rparr>"

definition validateDescription :: "jsstring \<Rightarrow> Validatable" where
  "validateDescription enteredDescription =
     \<lparr>input_value = Str enteredDescription, required = Some True,
      minLength = Some (Finite 5), maxLength = Some (Finite 50),
      min_value = None, max_value = None\<rparr>"

definition validatePeople :: "number \<Rightarrow> Validatable" where
  "validatePeople people =
     \<lparr>input_value = Num people, required = Some True,
      minLength = None, maxLength = None,
      min_value = Some (Finite 1), max_value = Some (Finite 10)\<rparr>"

section \<open>The project store\<close>

datatype ProjectStatus = Active | Finished

text \<open>The class \<open>Project\<close>; its field \<open>id\<close> is \<open>project_id\<close> here.\<close>

record Project =
  project_id :: jsstring
  title :: jsstring
  description :: jsstring
  people :: number
  status :: ProjectStatus

text \<open>
  A listener is a function the store calls with a copy of its project array. In this
  section and the next a listener is what the listeners of this program are, the closures
  of the two project lists: it reads the copy and changes the rest of the program (the
  components, of type \<open>'w\<close>); it returns, it writes to no Project, and it does not call
  the store. What the store does for listeners that raise or that write to what they are
  passed is the subject of the section on references.
\<close>

type_synonym 'w Listener = "Project list \<Rightarrow> 'w \<Rightarrow> 'w"

text \<open>
  The state of the running program: the fields \<open>listeners\<close> and \<open>projects\<close> of the
  one instance of \<open>ProjectState\<close> (\<open>getInstance\<close> creates it once and returns it ever
  after), and the components. \<open>notified\<close> is no field of the source: it records every
  call of a listener, as the listener's index in \<open>listeners\<close> and the array passed to
  it, so that the order and the arguments of the calls can be stated.
\<close>

record 'w app =
  listeners :: "'w Listener list"
  projects :: "Project list"
  components :: 'w
  notified :: "(nat \<times> Project list) list"

definition addListener :: "'w Listener \<Rightarrow> 'w app \<Rightarrow> 'w app" where
  "addListener listenerFn st = st\<lparr>listeners := listeners st @ [listenerFn]\<rparr>"

text \<open>
  The loop \<open>for (const listenerFn of this.listeners) listenerFn(this.projects.slice())\<close>,
  from the listener of index \<open>i\<close> on.
\<close>

fun call_listeners :: "nat \<Rightarrow> 'w Listener list \<Rightarrow> 'w app \<Rightarrow> 'w app" where
  "call_listeners i [] st = st"
| "call_listeners i (listenerFn # rest) st =
     call_listeners (Suc i) rest
       (st\<lparr>components := listenerFn (projects st) (components st),
           notified := notified st @ [(i, projects st)]\<rparr>)"

text \<open>
  \<open>addProject\<close>. The first argument is the string that \<open>Math.random().toString()\<close>
  evaluates to in this call: the random source belongs to the environment.
\<close>

definition addProject ::
  "jsstring \<Rightarrow> jsstring \<Rightarrow> jsstring \<Rightarrow> number \<Rightarrow> 'w app \<Rightarrow> 'w app" where
  "addProject random ttl desc numOfPeople st =
     (let newProject = \<lparr>project_id = random, title = ttl, description = desc,
                        people = numOfPeople, status = Active\<rparr>;
          st1 = st\<lparr>projects := projects st @ [newProject]\<rparr>
      in call_listeners 0 (listeners st1) st1)"

text \<open>
  Modelled from the spec: \<open>moveProject\<close> is a method of the store in
  \<open>state/project.ts\<close>, which is not among the sources; only its call in the drop
  handler of the project list is. By the spec it looks up the Project with the given id;
  if there is one it sets its status in place, whether or not the status changes, and
  notifies all listeners with a fresh copy, in the order of \<open>addProject\<close>; if there is
  none the call does nothing and raises no error. \<open>set_status\<close> writes the status of
  the first Project of the array that has the id, the one a lookup from the front finds.
\<close>

fun set_status :: "jsstring \<Rightarrow> ProjectStatus \<Rightarrow> Project list \<Rightarrow> Project list" where
  "set_status projectId newStatus [] = []"
| "set_status projectId newStatus (prj # rest) =
     (if project_id prj = projectId then prj\<lparr>status := newStatus\<rparr> # rest
      else prj # set_status projectId newStatus rest)"

text \<open>
  Modelled from the spec: \<open>moveProject(id, newStatus)\<close>, missing from the sources as
  said above. No match is the case \<open>None\<close>; a match sets the status and calls the
  listeners as \<open>addProject\<close> does.
\<close>

definition moveProject :: "jsstring \<Rightarrow> ProjectStatus \<Rightarrow> 'w app \<Rightarrow> 'w app" where
  "moveProject projectId newStatus st =
     (case find (\<lambda>prj. project_id prj = projectId) (projects st) of
        None \<Rightarrow> st
      | Some project \<Rightarrow>
          (let st1 = st\<lparr>projects := set_status projectId newStatus (projects st)\<rparr>
           in call_listeners 0 (listeners st1) st1))"

text \<open>The calls of the store that change the projects, and a run of them.\<close>

datatype store_call =
  AddProject jsstring jsstring jsstring number
| MoveProject jsstring ProjectStatus

fun store_step :: "store_call \<Rightarrow> 'w app \<Rightarrow> 'w app" where
  "store_step (AddProject random ttl desc numOfPeople) st =
     addProject random ttl desc numOfPeople st"
| "store_step (MoveProject projectId newStatus) st = moveProject projectId newStatus st"

fun run :: "store_call list \<Rightarrow> 'w app \<Rightarrow> 'w app" where
  "run [] st = st"
| "run (c # cs) st = run cs (store_step c st)"

text \<open>The random strings a run consumes, and the number of its \<open>addProject\<close> calls.\<close>

fun randoms :: "store_call list \<Rightarrow> jsstring list" where
  "randoms [] = []"
| "randoms (AddProject random ttl desc numOfPeople # cs) = random # randoms cs"
| "randoms (MoveProject projectId newStatus # cs) = randoms cs"

fun count_adds :: "store_call list \<Rightarrow> nat" where
  "count_adds [] = 0"
| "count_adds (AddProject random ttl desc numOfPeople # cs) = Suc (count_adds cs)"
| "count_adds (MoveProject projectId newStatus # cs) = count_adds cs"

section \<open>The components\<close>

text \<open>
  A project list has the type \<open>'active'\<close> or \<open>'finished'\<close>, fixed at construction; the
  program makes one list of each type. Its state is the cached array
  \<open>assignedProjects\<close> and the items it has rendered into its \<open>ul\<close> element, one per
  project, showing the title.
\<close>

datatype ListType = ActiveType | FinishedType

record ProjectList =
  assignedProjects :: "Project list"
  listItems :: "jsstring list"

text \<open>
  The project input holds the values of its three input elements. \<open>alerts\<close> are the
  messages shown by \<open>alert\<close>, oldest first.
\<close>

record ProjectInput =
  titleInputElement :: jsstring
  descriptionInputElement :: jsstring
  peopleInputElement :: jsstring

record ui =
  projectInput :: ProjectInput
  activeProjectList :: ProjectList
  finishedProjectList :: ProjectList
  alerts :: "jsstring list"

definition the_list :: "ListType \<Rightarrow> ui \<Rightarrow> ProjectList" where
  "the_list ty w =
     (case ty of ActiveType \<Rightarrow> activeProjectList w | FinishedType \<Rightarrow> finishedProjectList w)"

definition set_list :: "ListType \<Rightarrow> ProjectList \<Rightarrow> ui \<Rightarrow> ui" where
  "set_list ty l w =
     (case ty of ActiveType \<Rightarrow> w\<lparr>activeProjectList := l\<rparr>
               | FinishedType \<Rightarrow> w\<lparr>finishedProjectList := l\<rparr>)"

text \<open>\<open>renderProjects\<close>: empties the \<open>ul\<close> element and adds one item per cached project.\<close>

definition renderProjects :: "ProjectList \<Rightarrow> ProjectList" where
  "renderProjects this = this\<lparr>listItems := map title (assignedProjects this)\<rparr>"

text \<open>The listener that \<open>configure\<close> of the list of type \<open>ty\<close> registers with the store.\<close>

definition list_listener :: "ListType \<Rightarrow> ui Listener" where
  "list_listener ty projs w =
     (let relevantProjects =
            filter (\<lambda>proj. if ty = ActiveType then status proj = Active
                            else status proj = Finished) projs
      in set_list ty (renderProjects ((the_list ty w)\<lparr>assignedProjects := relevantProjects\<rparr>)) w)"

definition configure :: "ListType \<Rightarrow> ui app \<Rightarrow> ui app" where
  "configure ty st = addListener (list_listener ty) st"

text \<open>
  The program at the end of its start: the store is empty, the project input is there
  with empty fields, and the active list and then the finished list have been
  constructed, each with an empty cache and its listener registered.
\<close>

definition new_ProjectList :: ProjectList where
  "new_ProjectList = \<lparr>assignedProjects = [], listItems = []\<rparr>"

definition started :: "ui app" where
  "started =
     configure FinishedType (configure ActiveType
       \<lparr>listeners = [], projects = [],
        components = \<lparr>projectInput = \<lparr>titleInputElement = [], descriptionInputElement = [],
                                      peopleInputElement = []\<rparr>,
                      activeProjectList = new_ProjectList,
                      finishedProjectList = new_ProjectList,
                      alerts = []\<rparr>,
        notified = []\<rparr>)"

text \<open>
  \<open>gatherUserInput\<close> returns the triple, or nothing after an alert
  (\<open>Array.isArray\<close> of the caller tells the two apart).
\<close>

definition gatherUserInput ::
  "platform \<Rightarrow> ui \<Rightarrow> (jsstring \<times> jsstring \<times> number) option \<times> ui" where
  "gatherUserInput pf w =
     (let enteredTitle = titleInputElement (projectInput w);
          enteredDescription = descriptionInputElement (projectInput w);
          enteredPeople = peopleInputElement (projectInput w)
      in if validate pf (validateTitle enteredTitle) \<and>
            validate pf (validateDescription enteredDescription) \<and>
            validate pf (validatePeople (StringToNumber pf enteredPeople))
         then (Some (enteredTitle, enteredDescription, StringToNumber pf enteredPeople), w)
         else (None, w\<lparr>alerts := alerts w @ [js ''Invalid input, please try again!'']\<rparr>))"

definition clearInputs :: "ui \<Rightarrow> ui" where
  "clearInputs w =
     w\<lparr>projectInput := (projectInput w)\<lparr>titleInputElement := [],
                                         descriptionInputElement := [],
                                         peopleInputElement := []\<rparr>\<rparr>"

text \<open>
  \<open>submitHandler\<close>, after \<open>event.preventDefault()\<close>. \<open>random\<close> is the random string
  that \<open>addProject\<close> uses if it is called.
\<close>

definition submitHandler :: "platform \<Rightarrow> jsstring \<Rightarrow> ui app \<Rightarrow> ui app" where
  "submitHandler pf random st =
     (let (userInput, w) = gatherUserInput pf (components st);
          st1 = st\<lparr>components := w\<rparr>;
          st2 = (case userInput of
                   Some (ttl, desc, numOfPeople) \<Rightarrow> addProject random ttl desc numOfPeople st1
                 | None \<Rightarrow> st1)
      in st2\<lparr>components := clearInputs (components st2)\<rparr>)"

text \<open>The user types into the three fields of the form.\<close>

definition enter :: "jsstring \<Rightarrow> jsstring \<Rightarrow> jsstring \<Rightarrow> ui app \<Rightarrow> ui app" where
  "enter ttl desc ppl st =
     st\<lparr>components := (components st)\<lparr>projectInput :=
          \<lparr>titleInputElement = ttl, descriptionInputElement = desc,
           peopleInputElement = ppl\<rparr>\<rparr>\<rparr>"

text \<open>
  What the input unit tests before it adds a project: the condition of the \<open>if\<close> in
  \<open>gatherUserInput\<close>. And what the two lists show when they are up to date with the
  store: each caches the projects of its status, in the store's order, and has rendered
  their titles.
\<close>

definition all_valid :: "platform \<Rightarrow> ui \<Rightarrow> bool" where
  "all_valid pf w \<longleftrightarrow>
     validate pf (validateTitle (titleInputElement (projectInput w))) \<and>
     validate pf (validateDescription (descriptionInputElement (projectInput w))) \<and>
     validate pf (validatePeople (StringToNumber pf (peopleInputElement (projectInput w))))"

definition lists_current :: "ui app \<Rightarrow> bool" where
  "lists_current st \<longleftrightarrow>
     listeners st = [list_listener ActiveType, list_listener FinishedType]
     \<and> activeProjectList (components st) =
           \<lparr>assignedProjects = filter (\<lambda>p. status p = Active) (projects st),
            listItems = map title (filter (\<lambda>p. status p = Active) (projects st))\<rparr>
     \<and> finishedProjectList (components st) =
           \<lparr>assignedProjects = filter (\<lambda>p. status p = Finished) (projects st),
            listItems = map title (filter (\<lambda>p. status p = Finished) (projects st))\<rparr>"

section \<open>The store with its references\<close>

text \<open>
  \<open>this.projects.slice()\<close> makes a new array that holds the same Project objects as the
  store's array, and the loop that calls the listeners has no \<open>try\<close>. To say what a
  listener can and cannot change through the copy, and what becomes of the notification
  when a listener raises, this section models \<open>addProject\<close> once more with the objects
  in a heap: an address is an index into the heap, an allocation adds a cell at the end,
  and an array holds the addresses of its elements.
\<close>

type_synonym ref = nat

datatype obj = ProjectObj Project | ArrayObj "ref list"

type_synonym heap = "obj list"

definition alloc :: "obj \<Rightarrow> heap \<Rightarrow> ref \<times> heap" where
  "alloc x h = (length h, h @ [x])"

definition array_at :: "heap \<Rightarrow> ref \<Rightarrow> ref list" where
  "array_at h a =
     (if a < length h then (case h ! a of ArrayObj rs \<Rightarrow> rs | ProjectObj p \<Rightarrow> []) else [])"

definition project_at :: "heap \<Rightarrow> ref \<Rightarrow> Project option" where
  "project_at h r =
     (if r < length h then (case h ! r of ProjectObj p \<Rightarrow> Some p | ArrayObj rs \<Rightarrow> None)
      else None)"

text \<open>
  What a listener does to the array it is passed. \<open>ArrayWrite f\<close> is any change of the
  array itself (\<open>push\<close>, \<open>pop\<close>, \<open>splice\<close>, \<open>sort\<close>, a write to an index or to
  \<open>length\<close>): the array then holds \<open>f\<close> of what it held. \<open>ElementWrite i f\<close> is a write
  to fields of the element of index \<open>i\<close>, as in \<open>projects[i].status = ...\<close>: the
  Project there becomes \<open>f\<close> of itself; with no element of that index the language
  raises a TypeError, which ends the listener and the call that notified it. A listener
  here does not call the store while it is notified.
\<close>

datatype mutation =
  ArrayWrite "ref list \<Rightarrow> ref list"
| ElementWrite nat "Project \<Rightarrow> Project"

datatype 'a completion = Returned 'a | Thrown 'a

fun state_of :: "'a completion \<Rightarrow> 'a" where
  "state_of (Returned s) = s"
| "state_of (Thrown s) = s"

fun run_script :: "ref \<Rightarrow> mutation list \<Rightarrow> heap \<Rightarrow> heap completion" where
  "run_script a [] h = Returned h"
| "run_script a (ArrayWrite f # ms) h =
     run_script a ms (h[a := ArrayObj (f (array_at h a))])"
| "run_script a (ElementWrite i f # ms) h =
     (if i < length (array_at h a)
      then (case project_at h (array_at h a ! i) of
              Some p \<Rightarrow> run_script a ms (h[array_at h a ! i := ProjectObj (f p)])
            | None \<Rightarrow> run_script a ms h)
      else Thrown h)"

text \<open>
  The store: the heap, the address of its private array \<open>projects\<close>, and its
  listeners, each given by the writes it makes to the array it is passed.
\<close>

record store_ref =
  heap :: heap
  projects_ref :: ref
  listeners_ref :: "mutation list list"

text \<open>The loop of \<open>addProject\<close>: every listener is passed a new copy of the array.\<close>

fun call_listeners_ref :: "mutation list list \<Rightarrow> store_ref \<Rightarrow> store_ref completion" where
  "call_listeners_ref [] st = Returned st"
| "call_listeners_ref (listenerFn # rest) st =
     (let (snapshot, h1) = alloc (ArrayObj (array_at (heap st) (projects_ref st))) (heap st)
      in case run_script snapshot listenerFn h1 of
           Returned h2 \<Rightarrow> call_listeners_ref rest (st\<lparr>heap := h2\<rparr>)
         | Thrown h2 \<Rightarrow> Thrown (st\<lparr>heap := h2\<rparr>))"

definition addProject_ref ::
  "jsstring \<Rightarrow> jsstring \<Rightarrow> jsstring \<Rightarrow> number \<Rightarrow> store_ref \<Rightarrow> store_ref completion" where
  "addProject_ref random ttl desc numOfPeople st =
     (let (newProject, h1) =
            alloc (ProjectObj \<lparr>project_id = random, title = ttl, description = desc,
                               people = numOfPeople, status = Active\<rparr>) (heap st);
          h2 = h1[projects_ref st := ArrayObj (array_at h1 (projects_ref st) @ [newProject])];
          st1 = st\<lparr>heap := h2\<rparr>
      in call_listeners_ref (listeners_ref st1) st1)"

text \<open>The Projects of the store, read through its array.\<close>

definition store_projects :: "store_ref \<Rightarrow> Project option list" where
  "store_projects st = map (project_at (heap st)) (array_at (heap st) (projects_ref st))"

definition array_writes_only :: "mutation list \<Rightarrow> bool" where
  "array_writes_only ms = list_all (\<lambda>m. case m of ArrayWrite f \<Rightarrow> True
                                                 | ElementWrite i f \<Rightarrow> False) ms"






text \<open>
  The platform of the examples. It reads a string that is, once trimmed, empty or made of
  decimal digits as the number the digits write (zero when there is none) and any other
  string as \<open>NaN\<close>, and it writes every number it is asked for as \<open>0.5\<close>: it agrees
  with the language on the strings and numbers the examples use.
\<close>

fun digit_value :: "jsstring \<Rightarrow> nat \<Rightarrow> nat option" where
  "digit_value [] acc = Some acc"
| "digit_value (c # cs) acc =
     (if 0x30 \<le> c \<and> c \<le> 0x39 then digit_value cs (10 * acc + unat (c - 0x30)) else None)"

definition example_platform :: platform where
  "example_platform =
     \<lparr>StringToNumber = (\<lambda>s. case digit_value (trim s) 0 of
                               Some n \<Rightarrow> Finite (of_nat n)
                             | None \<Rightarrow> NaN),
      FiniteToString = (\<lambda>q. js ''0.5'')\<rparr>"

section \<open>Properties of validation\<close>

lemma dropWhile_rest_all:
  "list_all P (dropWhile P s) \<longleftrightarrow> list_all P s"
proof
  assume rest: "list_all P (dropWhile P s)"
  have "dropWhile P s = []"
  proof (rule ccontr)
    assume ne: "dropWhile P s \<noteq> []"
    then have "\<not> P (hd (dropWhile P s))" by (rule hd_dropWhile)
    moreover from ne have "hd (dropWhile P s) \<in> set (dropWhile P s)" by simp
    ultimately show False using rest by (simp add: list_all_iff)
  qed
  then show "list_all P s" by (simp add: list_all_iff)
next
  assume "list_all P s"
  then have "dropWhile P s = []" by (simp add: list_all_iff)
  then show "list_all P (dropWhile P s)" by (simp del: dropWhile_eq_Nil_conv)
qed

lemma trim_empty_iff: "trim s = [] \<longleftrightarrow> list_all WhiteSpace s"
proof -
  have "trim s = [] \<longleftrightarrow> list_all WhiteSpace (dropWhile WhiteSpace s)"
    by (simp add: trim_def list_all_iff)
  then show ?thesis by (simp add: dropWhile_rest_all)
qed

declare digits.simps [simp del]

lemma digit_not_WhiteSpace: "d < 10 \<Longrightarrow> \<not> WhiteSpace (0x30 + of_nat d)"
proof -
  assume "d < 10"
  then have "d \<in> {0, 1, 2, 3, 4, 5, 6, 7, 8, 9}" by auto
  then show ?thesis by (auto simp: WhiteSpace_def)
qed

lemma digits_not_blank: "\<not> list_all WhiteSpace (digits n)"
proof -
  have "\<exists>d < 10. \<exists>pre. digits n = pre @ [0x30 + of_nat d]"
  proof (cases "n < 10")
    case True
    then show ?thesis by (subst digits.simps) auto
  next
    case False
    have "n mod 10 < 10" by simp
    moreover from False
    have "digits n = digits (n div 10) @ [0x30 + of_nat (n mod 10)]"
      by (subst digits.simps) simp
    ultimately show ?thesis by blast
  qed
  then show ?thesis using digit_not_WhiteSpace by auto
qed

lemma names_not_blank:
  "\<not> list_all WhiteSpace (js ''NaN'')"
  "\<not> list_all WhiteSpace (js ''Infinity'')"
  "\<not> list_all WhiteSpace (js ''-Infinity'')"
  by (simp_all add: js_def WhiteSpace_def)

lemma NumberToString_not_blank:
  assumes "\<And>q. \<not> list_all WhiteSpace (FiniteToString pf q)"
  shows "\<not> list_all WhiteSpace (NumberToString pf x)"
proof (cases x)
  case (Finite q)
  then show ?thesis using assms digits_not_blank [of "nat \<bar>\<lfloor>q\<rfloor>\<bar>"]
    by (simp add: NumberToString_def)
qed (simp_all add: NumberToString_def names_not_blank)

lemma integer_string_not_blank:
  "q = of_int \<lfloor>q\<rfloor> \<Longrightarrow> \<bar>q\<bar> < 2 ^ 53 \<Longrightarrow>
   \<not> list_all WhiteSpace (NumberToString pf (Finite q))"
  using digits_not_blank [of "nat \<bar>\<lfloor>q\<rfloor>\<bar>"] by (simp add: NumberToString_def)

lemma validate_title_iff:
  "validate pf (validateTitle t) \<longleftrightarrow>
     \<not> list_all WhiteSpace t \<and> 1 \<le> length t \<and> length t \<le> 15"
  by (auto simp: validate_def validateTitle_def toString_def num_ge_def trim_empty_iff)

lemma validate_description_iff:
  "validate pf (validateDescription t) \<longleftrightarrow>
     \<not> list_all WhiteSpace t \<and> 5 \<le> length t \<and> length t \<le> 50"
  by (auto simp: validate_def validateDescription_def toString_def num_ge_def trim_empty_iff)

lemma validate_people_iff:
  "validate pf (validatePeople x) \<longleftrightarrow>
     \<not> list_all WhiteSpace (NumberToString pf x) \<and> num_le (Finite 1) x \<and> num_le x (Finite 10)"
  by (auto simp: validate_def validatePeople_def toString_def num_ge_def trim_empty_iff)

lemma validate_people_integer:
  "validate pf (validatePeople (Finite (of_int k))) \<longleftrightarrow> 1 \<le> k \<and> k \<le> 10"
proof (cases "1 \<le> k \<and> k \<le> 10")
  case True
  then have "\<bar>of_int k :: rat\<bar> < 2 ^ 53"
    by (simp flip: of_int_abs)
  then have "\<not> list_all WhiteSpace (NumberToString pf (Finite (of_int k)))"
    by (intro integer_string_not_blank) simp_all
  with True show ?thesis by (simp add: validate_people_iff)
next
  case False
  then show ?thesis by (auto simp: validate_people_iff)
qed

lemma required_number:
  assumes "\<And>q. \<not> list_all WhiteSpace (FiniteToString pf q)"
    and "input_value input = Num x"
  shows "validate pf input \<longleftrightarrow> validate pf (input\<lparr>required := None\<rparr>)"
  using NumberToString_not_blank [OF assms(1), of x] assms(2)
  by (simp add: validate_def toString_def trim_empty_iff)

lemma required_string:
  assumes "input_value input = Str s" and "required input = Some True"
  shows "validate pf input \<longleftrightarrow>
         \<not> list_all WhiteSpace s \<and> validate pf (input\<lparr>required := None\<rparr>)"
  using assms
  by (auto simp: validate_def toString_def trim_empty_iff split: option.splits)

text \<open>
  Claim C8, as the code has it. The title passes when its length is 1 or 15 and it is not
  made of white space only: the required check trims the title before it looks at its
  length, so a title that is one space fails although its length is 1. A title of length
  0 or 16 fails. The people values 1 and 10 pass, 0 and 11 fail.
\<close>

theorem title_and_people_boundaries:
  "((length t = 1 \<or> length t = 15) \<and> \<not> list_all WhiteSpace t
      \<longrightarrow> validate pf (validateTitle t))
   \<and> (length t = 0 \<or> length t = 16 \<longrightarrow> \<not> validate pf (validateTitle t))
   \<and> validate pf (validatePeople (Finite 1))
   \<and> validate pf (validatePeople (Finite 10))
   \<and> \<not> validate pf (validatePeople (Finite 0))
   \<and> \<not> validate pf (validatePeople (Finite 11))"
proof -
  have title: "((length t = 1 \<or> length t = 15) \<and> \<not> list_all WhiteSpace t
      \<longrightarrow> validate pf (validateTitle t))
   \<and> (length t = 0 \<or> length t = 16 \<longrightarrow> \<not> validate pf (validateTitle t))"
    by (auto simp: validate_title_iff)
  have people: "validate pf (validatePeople (Finite 1))"
    "validate pf (validatePeople (Finite 10))"
    "\<not> validate pf (validatePeople (Finite 0))"
    "\<not> validate pf (validatePeople (Finite 11))"
    using validate_people_integer [of pf 1] validate_people_integer [of pf 10]
      validate_people_integer [of pf 0] validate_people_integer [of pf 11]
    by simp_all
  from title people show ?thesis by blast
qed

theorem title_and_people_boundaries_witness:
  "validate example_platform (validateTitle (js ''a''))
   \<and> validate example_platform (validateTitle (js ''Fifteen letters''))
   \<and> \<not> validate example_platform (validateTitle [])
   \<and> \<not> validate example_platform (validateTitle (js ''ThisTitleIsTooLg''))"
  using title_and_people_boundaries [of "js ''a''" example_platform]
    title_and_people_boundaries [of "js ''Fifteen letters''" example_platform]
    title_and_people_boundaries [of "[]" example_platform]
    title_and_people_boundaries [of "js ''ThisTitleIsTooLg''" example_platform]
  by (simp add: js_def WhiteSpace_def)

text \<open>
  Claim C8 as stated fails: the title that is one space has length 1 and does not pass.
\<close>

theorem title_of_length_1_rejected:
  "length (js '' '') = 1 \<and> \<not> validate example_platform (validateTitle (js '' ''))"
  by (simp add: validate_title_iff js_def WhiteSpace_def)

text \<open>
  Claim C10. When the platform writes no number as a string of white space (the language
  writes none so), the required check changes nothing for a numeric value: \<open>validate\<close>
  answers as it does with \<open>required\<close> unset; the string of 0 is \<open>0\<close>. For a string value
  with \<open>required\<close> set, \<open>validate\<close> answers as it does with \<open>required\<close> unset, except
  that it rejects the strings made of white space only, the empty string among them.
  With no constraint set, \<open>validate\<close> returns true for every value.
\<close>

theorem required_check:
  assumes "\<And>q. \<not> list_all WhiteSpace (FiniteToString pf q)"
  shows "(input_value input = Num x \<longrightarrow>
            (validate pf input \<longleftrightarrow> validate pf (input\<lparr>required := None\<rparr>)))
       \<and> NumberToString pf (Finite 0) = js ''0''
       \<and> (input_value input = Str s \<and> required input = Some True \<longrightarrow>
            (validate pf input \<longleftrightarrow>
               \<not> (s = [] \<or> list_all WhiteSpace s) \<and> validate pf (input\<lparr>required := None\<rparr>)))
       \<and> validate pf \<lparr>input_value = v, required = None, minLength = None,
                       maxLength = None, min_value = None, max_value = None\<rparr>"
proof -
  have number: "input_value input = Num x \<longrightarrow>
      (validate pf input \<longleftrightarrow> validate pf (input\<lparr>required := None\<rparr>))"
    using required_number [OF assms] by blast
  have zero: "NumberToString pf (Finite 0) = js ''0''"
    by (simp add: NumberToString_def js_def digits.simps)
  have string: "input_value input = Str s \<and> required input = Some True \<longrightarrow>
      (validate pf input \<longleftrightarrow>
         \<not> (s = [] \<or> list_all WhiteSpace s) \<and> validate pf (input\<lparr>required := None\<rparr>))"
    using required_string [of input s pf] by auto
  have unset: "validate pf \<lparr>input_value = v, required = None, minLength = None,
      maxLength = None, min_value = None, max_value = None\<rparr>"
    by (simp add: validate_def)
  from number zero string unset show ?thesis by blast
qed

theorem required_check_witness:
  "validate example_platform
     \<lparr>input_value = Num (Finite (1 / 2)), required = Some True, minLength = None,
      maxLength = None, min_value = None, max_value = None\<rparr>
   \<and> \<not> validate example_platform
     \<lparr>input_value = Str (js ''  ''), required = Some True, minLength = None,
      maxLength = None, min_value = None, max_value = None\<rparr>"
proof -
  have platform: "\<And>q. \<not> list_all WhiteSpace (FiniteToString example_platform q)"
    by (simp add: example_platform_def js_def WhiteSpace_def)
  show ?thesis
    using required_check [OF platform,
        of "\<lparr>input_value = Num (Finite (1 / 2)), required = Some True, minLength = None,
             maxLength = None, min_value = None, max_value = None\<rparr>" "Finite (1 / 2)"
           "[]" "Num (Finite (1 / 2))"]
      required_check [OF platform,
        of "\<lparr>input_value = Str (js ''  ''), required = Some True, minLength = None,
             maxLength = None, min_value = None, max_value = None\<rparr>" NaN
           "js ''  ''" "Num NaN"]
    by (simp add: js_def WhiteSpace_def)
qed

section \<open>Properties of the store\<close>

lemma call_listeners_projects [simp]: "projects (call_listeners i ls st) = projects st"
  by (induction ls arbitrary: i st) simp_all

lemma call_listeners_listeners [simp]: "listeners (call_listeners i ls st) = listeners st"
  by (induction ls arbitrary: i st) simp_all

lemma call_listeners_notified:
  "notified (call_listeners i ls st) =
     notified st @ map (\<lambda>k. (k, projects st)) [i ..< i + length ls]"
proof (induction ls arbitrary: i st)
  case Nil
  then show ?case by simp
next
  case (Cons l ls)
  have "[i ..< i + length (l # ls)] = i # [Suc i ..< Suc i + length ls]"
    by (subst upt_rec) simp
  with Cons show ?case by simp
qed

lemma call_listeners_components:
  "components (call_listeners i ls st) =
     fold (\<lambda>listenerFn. listenerFn (projects st)) ls (components st)"
  by (induction ls arbitrary: i st) simp_all

lemma projects_addProject:
  "projects (addProject r t d n st) =
     projects st @ [\<lparr>project_id = r, title = t, description = d, people = n, status = Active\<rparr>]"
  by (simp add: addProject_def Let_def)

lemma set_status_length [simp]: "length (set_status i s ps) = length ps"
  by (induction ps) simp_all

lemma set_status_ids [simp]: "map project_id (set_status i s ps) = map project_id ps"
  by (induction ps) simp_all

lemma find_None_ids:
  "find (\<lambda>prj. project_id prj = i) ps = None \<longleftrightarrow> i \<notin> project_id ` set ps"
  by (auto simp: find_None_iff)

lemma set_status_absent: "i \<notin> project_id ` set ps \<Longrightarrow> set_status i s ps = ps"
  by (induction ps) auto

lemma projects_moveProject:
  "projects (moveProject i s st) = set_status i s (projects st)"
proof (cases "find (\<lambda>prj. project_id prj = i) (projects st)")
  case None
  then have "i \<notin> project_id ` set (projects st)" by (simp add: find_None_ids)
  then have "set_status i s (projects st) = projects st" by (rule set_status_absent)
  moreover have "moveProject i s st = st" unfolding moveProject_def None by simp
  ultimately show ?thesis by simp
next
  case (Some a)
  then show ?thesis by (simp add: moveProject_def Let_def)
qed

lemma notified_moveProject:
  assumes "projectId \<in> project_id ` set (projects st)"
  shows "notified (moveProject projectId newStatus st) =
     notified st @ map (\<lambda>i. (i, projects (moveProject projectId newStatus st)))
                       [0 ..< length (listeners st)]"
proof -
  from assms obtain a
    where "find (\<lambda>prj. project_id prj = projectId) (projects st) = Some a"
    using find_None_ids [of projectId "projects st"]
    by (cases "find (\<lambda>prj. project_id prj = projectId) (projects st)") auto
  then show ?thesis
    by (simp add: moveProject_def Let_def call_listeners_notified)
qed

lemma set_status_distinct:
  "distinct (map project_id ps) \<Longrightarrow>
   set_status i s ps = map (\<lambda>q. if project_id q = i then q\<lparr>status := s\<rparr> else q) ps"
proof (induction ps)
  case Nil
  then show ?case by simp
next
  case (Cons p ps)
  show ?case
  proof (cases "project_id p = i")
    case True
    with Cons.prems have "i \<notin> project_id ` set ps" by auto
    then have "map (\<lambda>q. if project_id q = i then q\<lparr>status := s\<rparr> else q) ps = ps"
      by (induction ps) auto
    with True show ?thesis by simp
  next
    case False
    with Cons show ?thesis by simp
  qed
qed

lemma filter_distinct_key:
  "distinct (map f ps) \<Longrightarrow> P \<in> set ps \<Longrightarrow> filter (\<lambda>q. f q = f P) ps = [P]"
proof (induction ps)
  case Nil
  then show ?case by simp
next
  case (Cons p ps)
  show ?case
  proof (cases "P = p")
    case True
    from Cons.prems have "f p \<notin> f ` set ps" by simp
    with True have "\<forall>q \<in> set ps. f q \<noteq> f P" by (metis imageI)
    then have "filter (\<lambda>q. f q = f P) ps = []" by (simp add: filter_empty_conv)
    with True show ?thesis by simp
  next
    case False
    with Cons.prems have "P \<in> set ps" "f p \<noteq> f P" by auto
    with Cons show ?thesis by simp
  qed
qed

lemma ids_run:
  "map project_id (projects (run cs st)) = map project_id (projects st) @ randoms cs"
proof (induction cs arbitrary: st)
  case Nil
  then show ?case by simp
next
  case (Cons c cs)
  then show ?case by (cases c) (simp_all add: projects_addProject projects_moveProject)
qed

lemma length_run: "length (projects (run cs st)) = length (projects st) + count_adds cs"
proof (induction cs arbitrary: st)
  case Nil
  then show ?case by simp
next
  case (Cons c cs)
  then show ?case by (cases c) (simp_all add: projects_addProject projects_moveProject)
qed

lemma run_append: "run (cs @ ds) st = run ds (run cs st)"
  by (induction cs arbitrary: st) simp_all

lemma started_listeners:
  "listeners started = [list_listener ActiveType, list_listener FinishedType]"
  by (simp add: started_def configure_def addListener_def)

lemma started_projects: "projects started = []"
  by (simp add: started_def configure_def addListener_def)

text \<open>
  \<open>addProject\<close> with listeners that only read: the array gains the new Project at its
  end, and every listener is called once, in the order of registration, with the new
  array.
\<close>

lemma notified_addProject:
  fixes st :: "'w app" and random ttl desc numOfPeople
  defines "st' \<equiv> addProject random ttl desc numOfPeople st"
  shows "projects st' = projects st @ [\<lparr>project_id = random, title = ttl, description = desc,
                                       people = numOfPeople, status = Active\<rparr>]
     \<and> listeners st' = listeners st
     \<and> notified st' = notified st @ map (\<lambda>i. (i, projects st')) [0 ..< length (listeners st)]
     \<and> components st' =
         fold (\<lambda>listenerFn. listenerFn (projects st')) (listeners st) (components st)"
  unfolding st'_def
  by (simp add: addProject_def Let_def call_listeners_notified call_listeners_components)

text \<open>
  Claim C4. \<open>moveProject\<close> with an id that no Project of the store has returns the state
  it was given: the same projects in the same order, the same listeners, no listener
  called, the components untouched. The call returns a state in every case: it has no
  error to raise.
\<close>

theorem moveProject_unknown_id:
  "projectId \<notin> project_id ` set (projects st) \<Longrightarrow> moveProject projectId newStatus st = st"
  by (simp add: moveProject_def flip: find_None_ids)

theorem moveProject_unknown_id_witness:
  "moveProject (js ''nonexistent-id'') Finished
     (addProject (js ''0.5'') (js ''Build API'') (js ''Design the REST API'') (Finite 3) started)
   = addProject (js ''0.5'') (js ''Build API'') (js ''Design the REST API'') (Finite 3) started"
  using moveProject_unknown_id [of "js ''nonexistent-id''"
      "addProject (js ''0.5'') (js ''Build API'') (js ''Design the REST API'') (Finite 3) started"
      Finished]
  by (simp add: projects_addProject started_projects js_def)

text \<open>
  Claim C3, as the code and the spec's \<open>moveProject\<close> have it. When the ids of the store
  are pairwise distinct and \<open>P\<close> is a Project of the store, after
  \<open>moveProject(P.id, S)\<close> exactly one Project has the id of \<open>P\<close>, and it is \<open>P\<close> with
  the status \<open>S\<close>; the array has the same length, every Project with another id is
  unchanged at its place, and every listener has been called once, in the order of
  registration, with a copy of the new array.
\<close>

theorem moveProject_sets_status:
  fixes st :: "'w app" and P S
  assumes "distinct (map project_id (projects st))" and "P \<in> set (projects st)"
  defines "st' \<equiv> moveProject (project_id P) S st"
  shows "filter (\<lambda>q. project_id q = project_id P) (projects st') = [P\<lparr>status := S\<rparr>]
     \<and> length (projects st') = length (projects st)
     \<and> (\<forall>i < length (projects st). project_id (projects st ! i) \<noteq> project_id P
            \<longrightarrow> projects st' ! i = projects st ! i)
     \<and> notified st' = notified st @ map (\<lambda>i. (i, projects st')) [0 ..< length (listeners st)]"
proof -
  let ?g = "\<lambda>q. if project_id q = project_id P then q\<lparr>status := S\<rparr> else q"
  have ps': "projects st' = map ?g (projects st)"
    unfolding st'_def using assms(1) by (simp add: projects_moveProject set_status_distinct)
  have "filter (\<lambda>q. project_id q = project_id P) (map ?g (projects st))
      = map ?g (filter (\<lambda>q. project_id q = project_id P) (projects st))"
    by (induction "projects st") (auto simp: filter_map comp_def intro: filter_cong)
  also have "\<dots> = [P\<lparr>status := S\<rparr>]"
    using filter_distinct_key [OF assms(1,2)] by simp
  finally have one:
    "filter (\<lambda>q. project_id q = project_id P) (projects st') = [P\<lparr>status := S\<rparr>]"
    by (simp add: ps')
  have len: "length (projects st') = length (projects st)" by (simp add: ps')
  have others: "\<forall>i < length (projects st). project_id (projects st ! i) \<noteq> project_id P
            \<longrightarrow> projects st' ! i = projects st ! i"
    by (simp add: ps')
  have "project_id P \<in> project_id ` set (projects st)" using assms(2) by blast
  then have calls: "notified st' =
      notified st @ map (\<lambda>i. (i, projects st')) [0 ..< length (listeners st)]"
    unfolding st'_def by (rule notified_moveProject)
  from one len others calls show ?thesis by blast
qed

theorem moveProject_sets_status_witness:
  "filter (\<lambda>q. project_id q = js ''0.5'')
     (projects (moveProject (js ''0.5'') Finished
        (run [AddProject (js ''0.5'') (js ''A'') (js ''first'') (Finite 1),
              AddProject (js ''0.7'') (js ''B'') (js ''second'') (Finite 2)] started)))
   = [\<lparr>project_id = js ''0.5'', title = js ''A'', description = js ''first'',
       people = Finite 1, status = Finished\<rparr>]"
  using moveProject_sets_status
    [of "run [AddProject (js ''0.5'') (js ''A'') (js ''first'') (Finite 1),
              AddProject (js ''0.7'') (js ''B'') (js ''second'') (Finite 2)] started"
        "\<lparr>project_id = js ''0.5'', title = js ''A'', description = js ''first'',
          people = Finite 1, status = Active\<rparr>" Finished]
  by (simp add: projects_addProject started_projects js_def)

text \<open>
  Claim C3 as stated fails in a store that two \<open>addProject\<close> calls with the same random
  string have filled: after \<open>moveProject\<close> with the id of its Projects, two Projects
  have that id, and the second still has the status Active.
\<close>

theorem moveProject_with_equal_ids:
  "map (\<lambda>q. (project_id q, status q))
     (projects (moveProject (js ''0.5'') Finished
        (run [AddProject (js ''0.5'') (js ''A'') (js ''first'') (Finite 1),
              AddProject (js ''0.5'') (js ''B'') (js ''second'') (Finite 2)] started)))
   = [(js ''0.5'', Finished), (js ''0.5'', Active)]"
  by (simp add: projects_addProject projects_moveProject started_projects)

text \<open>
  Claim C5, as the code has it. In the store that a run of \<open>addProject\<close> and
  \<open>moveProject\<close> calls reaches from an empty one, the ids of the Projects are, in
  order, the random strings of the \<open>addProject\<close> calls; so they are pairwise distinct
  exactly when those strings are. No later call changes the id at a place of the array.
\<close>

theorem ids_of_the_store:
  assumes "projects st = []"
  shows "map project_id (projects (run cs st)) = randoms cs
     \<and> (distinct (map project_id (projects (run cs st))) \<longleftrightarrow> distinct (randoms cs))
     \<and> (\<forall>i < length (projects (run cs st)).
          project_id (projects (run (cs @ ds) st) ! i) = project_id (projects (run cs st) ! i))"
proof -
  have ids: "map project_id (projects (run cs st)) = randoms cs"
    using assms by (simp add: ids_run)
  have later: "map project_id (projects (run (cs @ ds) st))
      = map project_id (projects (run cs st)) @ randoms ds"
    by (simp add: run_append ids_run)
  have kept: "\<forall>i < length (projects (run cs st)).
      project_id (projects (run (cs @ ds) st) ! i) = project_id (projects (run cs st) ! i)"
  proof (intro allI impI)
    fix i assume i: "i < length (projects (run cs st))"
    then have "map project_id (projects (run (cs @ ds) st)) ! i
        = map project_id (projects (run cs st)) ! i"
      by (simp add: later nth_append)
    moreover have "i < length (projects (run (cs @ ds) st))"
      using i by (simp add: run_append length_run)
    ultimately show "project_id (projects (run (cs @ ds) st) ! i)
        = project_id (projects (run cs st) ! i)"
      using i by simp
  qed
  from ids kept show ?thesis by simp
qed

theorem ids_of_the_store_witness:
  "map project_id (projects (run
      [AddProject (js ''0.5'') (js ''A'') (js ''first'') (Finite 1),
       MoveProject (js ''0.5'') Finished,
       AddProject (js ''0.7'') (js ''B'') (js ''second'') (Finite 2)] started))
   = [js ''0.5'', js ''0.7'']
   \<and> distinct (map project_id (projects (run
      [AddProject (js ''0.5'') (js ''A'') (js ''first'') (Finite 1),
       MoveProject (js ''0.5'') Finished,
       AddProject (js ''0.7'') (js ''B'') (js ''second'') (Finite 2)] started)))"
  using ids_of_the_store [OF started_projects,
      of "[AddProject (js ''0.5'') (js ''A'') (js ''first'') (Finite 1),
           MoveProject (js ''0.5'') Finished,
           AddProject (js ''0.7'') (js ''B'') (js ''second'') (Finite 2)]" "[]"]
  by (simp add: js_def)

text \<open>
  Claim C5 as stated fails: when \<open>Math.random()\<close> returns the same number in two
  \<open>addProject\<close> calls, two Projects of the store have the same id.
\<close>

theorem equal_random_strings_equal_ids:
  "\<not> distinct (map project_id (projects (run
      [AddProject (js ''0.5'') (js ''A'') (js ''first'') (Finite 1),
       AddProject (js ''0.5'') (js ''B'') (js ''second'') (Finite 2)] started)))"
  by (simp add: projects_addProject started_projects)

section \<open>Properties of the project lists\<close>

lemma lists_after_notification:
  assumes "listeners st = [list_listener ActiveType, list_listener FinishedType]"
  shows "activeProjectList (components (call_listeners 0 (listeners st) st)) =
           \<lparr>assignedProjects = filter (\<lambda>p. status p = Active) (projects st),
            listItems = map title (filter (\<lambda>p. status p = Active) (projects st))\<rparr>"
    and "finishedProjectList (components (call_listeners 0 (listeners st) st)) =
           \<lparr>assignedProjects = filter (\<lambda>p. status p = Finished) (projects st),
            listItems = map title (filter (\<lambda>p. status p = Finished) (projects st))\<rparr>"
  by (simp_all add: assms list_listener_def set_list_def the_list_def renderProjects_def
      Let_def)

lemma lists_current_started: "lists_current started"
  by (simp add: lists_current_def started_def configure_def addListener_def
      new_ProjectList_def)

lemma lists_current_notified:
  "listeners st = [list_listener ActiveType, list_listener FinishedType] \<Longrightarrow>
   lists_current (call_listeners 0 (listeners st) st)"
  using lists_after_notification [of st] by (simp add: lists_current_def)

lemma lists_current_step: "lists_current st \<Longrightarrow> lists_current (store_step c st)"
proof (cases c)
  case (AddProject r t d n)
  assume "lists_current st"
  then have "listeners st = [list_listener ActiveType, list_listener FinishedType]"
    by (simp add: lists_current_def)
  then show ?thesis
    using lists_current_notified
      [of "st\<lparr>projects := projects st @ [\<lparr>project_id = r, title = t, description = d,
                                            people = n, status = Active\<rparr>]\<rparr>"]
    by (simp add: AddProject addProject_def Let_def)
next
  case (MoveProject i s)
  assume cur: "lists_current st"
  then have ls: "listeners st = [list_listener ActiveType, list_listener FinishedType]"
    by (simp add: lists_current_def)
  show ?thesis
  proof (cases "find (\<lambda>prj. project_id prj = i) (projects st)")
    case None
    then have "moveProject i s st = st" by (simp add: moveProject_def)
    with cur MoveProject show ?thesis by simp
  next
    case (Some a)
    then have "moveProject i s st =
        call_listeners 0 (listeners st) (st\<lparr>projects := set_status i s (projects st)\<rparr>)"
      by (simp add: moveProject_def Let_def)
    with ls MoveProject show ?thesis
      using lists_current_notified [of "st\<lparr>projects := set_status i s (projects st)\<rparr>"]
      by simp
  qed
qed

lemma lists_current_run: "lists_current st \<Longrightarrow> lists_current (run cs st)"
  by (induction cs arbitrary: st) (simp_all add: lists_current_step)

lemma status_partition:
  "length (filter (\<lambda>p. status p = Active) ps) + length (filter (\<lambda>p. status p = Finished) ps)
     = length ps"
proof (induction ps)
  case Nil
  then show ?case by simp
next
  case (Cons p ps)
  then show ?case by (cases "status p") simp_all
qed

lemma distinct_ids_disjoint:
  assumes "distinct (map project_id ps)"
  shows "project_id ` set (filter (\<lambda>p. status p = Active) ps)
       \<inter> project_id ` set (filter (\<lambda>p. status p = Finished) ps) = {}"
proof -
  from assms have inj: "inj_on project_id (set ps)" by (simp add: distinct_map)
  show ?thesis
  proof (rule ccontr)
    assume "\<not> ?thesis"
    then obtain p q where p: "p \<in> set ps" "status p = Active"
      and q: "q \<in> set ps" "status q = Finished" and "project_id p = project_id q"
      by auto
    with inj have "p = q" by (auto dest: inj_onD)
    with p q show False by simp
  qed
qed

text \<open>
  Claim C7, as the code has it. After any run of \<open>addProject\<close> and \<open>moveProject\<close>
  calls from the start of the program, the cache of the active list is the Projects of
  the store with the status Active, in the store's order, the cache of the finished list
  those with the status Finished, and each list has rendered the titles of its cache. So
  the two counts add up to the number of \<open>addProject\<close> calls, and no Project is in both
  caches. No id is in both caches when the random strings of the \<open>addProject\<close> calls
  are pairwise distinct.
\<close>

theorem lists_partition_the_store:
  fixes cs :: "store_call list"
  defines "st \<equiv> run cs started"
  defines "cachedActive \<equiv> assignedProjects (activeProjectList (components st))"
  defines "cachedFinished \<equiv> assignedProjects (finishedProjectList (components st))"
  shows "cachedActive = filter (\<lambda>p. status p = Active) (projects st)
     \<and> cachedFinished = filter (\<lambda>p. status p = Finished) (projects st)
     \<and> listItems (activeProjectList (components st)) = map title cachedActive
     \<and> listItems (finishedProjectList (components st)) = map title cachedFinished
     \<and> length cachedActive + length cachedFinished = count_adds cs
     \<and> set cachedActive \<inter> set cachedFinished = {}
     \<and> (distinct (randoms cs) \<longrightarrow>
          project_id ` set cachedActive \<inter> project_id ` set cachedFinished = {})"
proof -
  have cur: "lists_current st"
    unfolding st_def by (rule lists_current_run [OF lists_current_started])
  then have a: "cachedActive = filter (\<lambda>p. status p = Active) (projects st)"
    and f: "cachedFinished = filter (\<lambda>p. status p = Finished) (projects st)"
    and items_a: "listItems (activeProjectList (components st)) = map title cachedActive"
    and items_f: "listItems (finishedProjectList (components st)) = map title cachedFinished"
    by (simp_all add: lists_current_def cachedActive_def cachedFinished_def)
  have "length (projects st) = count_adds cs"
    unfolding st_def by (simp add: length_run started_projects)
  then have n: "length cachedActive + length cachedFinished = count_adds cs"
    using status_partition [of "projects st"] by (simp add: a f)
  have d: "set cachedActive \<inter> set cachedFinished = {}"
    by (auto simp: a f)
  have ids: "map project_id (projects st) = randoms cs"
    unfolding st_def by (simp add: ids_run started_projects)
  have i: "distinct (randoms cs) \<longrightarrow>
          project_id ` set cachedActive \<inter> project_id ` set cachedFinished = {}"
    using distinct_ids_disjoint [of "projects st"] by (simp add: a f ids)
  from a f items_a items_f n d i show ?thesis by blast
qed

theorem lists_partition_the_store_witness:
  "length (assignedProjects (activeProjectList (components (run
      [AddProject (js ''0.5'') (js ''A'') (js ''first'') (Finite 1),
       AddProject (js ''0.7'') (js ''B'') (js ''second'') (Finite 2),
       MoveProject (js ''0.5'') Finished] started))))
   + length (assignedProjects (finishedProjectList (components (run
      [AddProject (js ''0.5'') (js ''A'') (js ''first'') (Finite 1),
       AddProject (js ''0.7'') (js ''B'') (js ''second'') (Finite 2),
       MoveProject (js ''0.5'') Finished] started)))) = 2
   \<and> project_id ` set (assignedProjects (activeProjectList (components (run
      [AddProject (js ''0.5'') (js ''A'') (js ''first'') (Finite 1),
       AddProject (js ''0.7'') (js ''B'') (js ''second'') (Finite 2),
       MoveProject (js ''0.5'') Finished] started))))
     \<inter> project_id ` set (assignedProjects (finishedProjectList (components (run
      [AddProject (js ''0.5'') (js ''A'') (js ''first'') (Finite 1),
       AddProject (js ''0.7'') (js ''B'') (js ''second'') (Finite 2),
       MoveProject (js ''0.5'') Finished] started)))) = {}"
proof -
  let ?cs = "[AddProject (js ''0.5'') (js ''A'') (js ''first'') (Finite 1),
              AddProject (js ''0.7'') (js ''B'') (js ''second'') (Finite 2),
              MoveProject (js ''0.5'') Finished]"
  have d: "distinct (randoms ?cs)" by (simp add: js_def)
  have c: "count_adds ?cs = 2" by simp
  from lists_partition_the_store [of ?cs] d show ?thesis
    unfolding c [symmetric] by blast
qed

text \<open>
  Claim C7 as stated fails: after two \<open>addProject\<close> calls with the same random string
  and a \<open>moveProject\<close> of that id to Finished, the id is in the cache of both lists.
\<close>

theorem id_in_both_lists:
  "js ''0.5'' \<in> project_id ` set (assignedProjects (activeProjectList (components
       (run [AddProject (js ''0.5'') (js ''A'') (js ''first'') (Finite 1),
             AddProject (js ''0.5'') (js ''B'') (js ''second'') (Finite 2),
             MoveProject (js ''0.5'') Finished] started))))
   \<and> js ''0.5'' \<in> project_id ` set (assignedProjects (finishedProjectList (components
       (run [AddProject (js ''0.5'') (js ''A'') (js ''first'') (Finite 1),
             AddProject (js ''0.5'') (js ''B'') (js ''second'') (Finite 2),
             MoveProject (js ''0.5'') Finished] started))))"
proof -
  let ?cs = "[AddProject (js ''0.5'') (js ''A'') (js ''first'') (Finite 1),
             AddProject (js ''0.5'') (js ''B'') (js ''second'') (Finite 2),
             MoveProject (js ''0.5'') Finished]"
  have cur: "lists_current (run ?cs started)"
    by (rule lists_current_run [OF lists_current_started])
  have "map (\<lambda>q. (project_id q, status q)) (projects (run ?cs started))
      = [(js ''0.5'', Finished), (js ''0.5'', Active)]"
    by (simp add: projects_addProject projects_moveProject started_projects)
  then show ?thesis
    using cur by (auto simp add: lists_current_def image_iff)
qed

section \<open>Properties of the project input\<close>

lemma gatherUserInput_valid:
  "all_valid pf w \<Longrightarrow>
   gatherUserInput pf w =
     (Some (titleInputElement (projectInput w), descriptionInputElement (projectInput w),
            StringToNumber pf (peopleInputElement (projectInput w))), w)"
  by (simp add: gatherUserInput_def all_valid_def Let_def)

lemma gatherUserInput_invalid:
  "\<not> all_valid pf w \<Longrightarrow>
   gatherUserInput pf w =
     (None, w\<lparr>alerts := alerts w @ [js ''Invalid input, please try again!'']\<rparr>)"
  by (auto simp add: gatherUserInput_def all_valid_def Let_def)

lemma submitHandler_invalid:
  "\<not> all_valid pf (components st) \<Longrightarrow>
   submitHandler pf random st =
     st\<lparr>components := clearInputs ((components st)
          \<lparr>alerts := alerts (components st) @ [js ''Invalid input, please try again!'']\<rparr>)\<rparr>"
  by (simp add: submitHandler_def gatherUserInput_invalid)

lemma submitHandler_valid:
  "all_valid pf (components st) \<Longrightarrow>
   submitHandler pf random st =
     (let st2 = addProject random (titleInputElement (projectInput (components st)))
                  (descriptionInputElement (projectInput (components st)))
                  (StringToNumber pf (peopleInputElement (projectInput (components st)))) st
      in st2\<lparr>components := clearInputs (components st2)\<rparr>)"
  by (simp add: submitHandler_def gatherUserInput_valid Let_def)

lemma projectInput_clearInputs:
  "projectInput (clearInputs w) =
     \<lparr>titleInputElement = [], descriptionInputElement = [], peopleInputElement = []\<rparr>"
  by (simp add: clearInputs_def)

lemma example_too_long:
  "\<not> all_valid example_platform (components
      (enter (js ''ThisTitleIsTooLg'') (js ''A description that is forty chars long..'')
         (js ''5'') started))"
  by (simp add: all_valid_def enter_def validate_title_iff js_def)

lemma example_valid:
  "all_valid example_platform
     (components (enter (js '' a'') (js ''hello'') (js ''3'') started))"
proof -
  have n: "StringToNumber example_platform (js ''3'') = Finite 3"
    by (simp add: example_platform_def trim_def js_def WhiteSpace_def)
  have t: "validate example_platform (validateTitle (js '' a''))"
    by (simp add: validate_title_iff js_def WhiteSpace_def)
  have d: "validate example_platform (validateDescription (js ''hello''))"
    by (simp add: validate_description_iff js_def WhiteSpace_def)
  have p: "validate example_platform (validatePeople (Finite 3))"
    using validate_people_integer [of example_platform 3] by simp
  show ?thesis by (simp add: all_valid_def enter_def n t d p)
qed

text \<open>
  Claim C2, as the code has it. \<open>submitHandler\<close> calls \<open>clearInputs\<close> after the
  \<open>if\<close>, on both paths: the three fields are empty after every submission. When
  validation fails, the user is alerted and nothing else changes: the store has the same
  projects and listeners, no listener is called, and the lists are untouched. When
  validation succeeds, the project has been added by the time the fields are cleared.
\<close>

theorem submit_clears_the_fields:
  fixes st :: "ui app" and pf random
  defines "st' \<equiv> submitHandler pf random st"
  shows "projectInput (components st') =
           \<lparr>titleInputElement = [], descriptionInputElement = [], peopleInputElement = []\<rparr>
     \<and> (\<not> all_valid pf (components st) \<longrightarrow>
          alerts (components st') =
            alerts (components st) @ [js ''Invalid input, please try again!'']
          \<and> projects st' = projects st \<and> listeners st' = listeners st
          \<and> notified st' = notified st
          \<and> activeProjectList (components st') = activeProjectList (components st)
          \<and> finishedProjectList (components st') = finishedProjectList (components st))
     \<and> (all_valid pf (components st) \<longrightarrow>
          projects st' = projects st @
            [\<lparr>project_id = random,
              title = titleInputElement (projectInput (components st)),
              description = descriptionInputElement (projectInput (components st)),
              people = StringToNumber pf (peopleInputElement (projectInput (components st))),
              status = Active\<rparr>])"
proof -
  have cleared: "projectInput (components st') =
           \<lparr>titleInputElement = [], descriptionInputElement = [], peopleInputElement = []\<rparr>"
    unfolding st'_def
    by (cases "all_valid pf (components st)")
       (simp_all add: submitHandler_valid submitHandler_invalid projectInput_clearInputs Let_def)
  have rejected: "\<not> all_valid pf (components st) \<longrightarrow>
          alerts (components st') =
            alerts (components st) @ [js ''Invalid input, please try again!'']
          \<and> projects st' = projects st \<and> listeners st' = listeners st
          \<and> notified st' = notified st
          \<and> activeProjectList (components st') = activeProjectList (components st)
          \<and> finishedProjectList (components st') = finishedProjectList (components st)"
    unfolding st'_def by (simp add: submitHandler_invalid clearInputs_def)
  have accepted: "all_valid pf (components st) \<longrightarrow>
          projects st' = projects st @
            [\<lparr>project_id = random,
              title = titleInputElement (projectInput (components st)),
              description = descriptionInputElement (projectInput (components st)),
              people = StringToNumber pf (peopleInputElement (projectInput (components st))),
              status = Active\<rparr>]"
    unfolding st'_def by (simp add: submitHandler_valid Let_def projects_addProject)
  from cleared rejected accepted show ?thesis by blast
qed

theorem submit_clears_the_fields_witness:
  "alerts (components (submitHandler example_platform (js ''0.5'')
      (enter (js ''ThisTitleIsTooLg'') (js ''A description that is forty chars long..'')
         (js ''5'') started)))
     = [js ''Invalid input, please try again!'']
   \<and> projects (submitHandler example_platform (js ''0.5'')
      (enter (js ''ThisTitleIsTooLg'') (js ''A description that is forty chars long..'')
         (js ''5'') started)) = []"
proof -
  let ?st = "enter (js ''ThisTitleIsTooLg'') (js ''A description that is forty chars long..'')
         (js ''5'') started"
  have "alerts (components ?st) = []" and "projects ?st = []"
    by (simp_all add: enter_def started_def configure_def addListener_def)
  with submit_clears_the_fields [of example_platform "js ''0.5''" ?st] example_too_long
  show ?thesis by simp
qed

text \<open>
  Claim C2 as stated fails: a submission with a title of 16 code units is rejected, and
  the title field, which held the title, is empty afterwards.
\<close>

theorem fields_cleared_after_rejection:
  "\<not> all_valid example_platform (components
      (enter (js ''ThisTitleIsTooLg'') (js ''A description that is forty chars long..'')
         (js ''5'') started))
   \<and> titleInputElement (projectInput (components
      (enter (js ''ThisTitleIsTooLg'') (js ''A description that is forty chars long..'')
         (js ''5'') started)))
       = js ''ThisTitleIsTooLg''
   \<and> titleInputElement (projectInput (components (submitHandler example_platform (js ''0.5'')
      (enter (js ''ThisTitleIsTooLg'') (js ''A description that is forty chars long..'')
         (js ''5'') started))))
       = []"
  using example_too_long
  by (simp add: submitHandler_invalid clearInputs_def) (simp add: enter_def)

text \<open>
  Claim C9, as the code has it. When the three fields pass validation, \<open>submitHandler\<close>
  is the call of \<open>addProject\<close> with the title and the description as they were entered
  and the people field converted to a number, followed by \<open>clearInputs\<close>; the project
  added has exactly these values. The strings are trimmed inside the required check of
  \<open>validate\<close> only, not in what is passed on.
\<close>

theorem submit_calls_addProject:
  fixes st :: "ui app" and pf random
  defines "enteredTitle \<equiv> titleInputElement (projectInput (components st))"
  defines "enteredDescription \<equiv> descriptionInputElement (projectInput (components st))"
  defines "enteredPeople \<equiv> peopleInputElement (projectInput (components st))"
  assumes "all_valid pf (components st)"
  shows "submitHandler pf random st =
     (let st2 = addProject random enteredTitle enteredDescription
                  (StringToNumber pf enteredPeople) st
      in st2\<lparr>components := clearInputs (components st2)\<rparr>)
     \<and> projects (submitHandler pf random st) = projects st @
          [\<lparr>project_id = random, title = enteredTitle, description = enteredDescription,
            people = StringToNumber pf enteredPeople, status = Active\<rparr>]"
  using assms(4)
  unfolding enteredTitle_def enteredDescription_def enteredPeople_def
  by (simp add: submitHandler_valid Let_def projects_addProject)

theorem submit_calls_addProject_witness:
  "projects (submitHandler example_platform (js ''0.5'')
      (enter (js '' a'') (js ''hello'') (js ''3'') started))
   = [\<lparr>project_id = js ''0.5'', title = js '' a'', description = js ''hello'',
       people = Finite 3, status = Active\<rparr>]"
proof -
  let ?st = "enter (js '' a'') (js ''hello'') (js ''3'') started"
  have "projects ?st = []"
    and "projectInput (components ?st) =
      \<lparr>titleInputElement = js '' a'', descriptionInputElement = js ''hello'',
       peopleInputElement = js ''3''\<rparr>"
    by (simp_all add: enter_def started_def configure_def addListener_def)
  moreover have "StringToNumber example_platform (js ''3'') = Finite 3"
    by (simp add: example_platform_def trim_def js_def WhiteSpace_def)
  ultimately show ?thesis
    using submit_calls_addProject [OF example_valid, of "js ''0.5''", THEN conjunct2]
    by simp
qed

text \<open>
  Claim C9 as stated fails: the title \<open>'' a''\<close>, with a space in front, passes
  validation, and the project added has this title, not the trimmed one.
\<close>

theorem title_not_trimmed:
  "all_valid example_platform (components (enter (js '' a'') (js ''hello'') (js ''3'') started))
   \<and> title (last (projects (submitHandler example_platform (js ''0.5'')
        (enter (js '' a'') (js ''hello'') (js ''3'') started)))) = js '' a''
   \<and> trim (js '' a'') = js ''a''"
  using example_valid
  by (simp add: submitHandler_valid Let_def projects_addProject)
     (simp add: enter_def trim_def js_def WhiteSpace_def)

section \<open>Properties of the store with its references\<close>

lemma project_at_Some:
  "project_at h r = Some p \<longleftrightarrow> r < length h \<and> h ! r = ProjectObj p"
  by (auto simp: project_at_def split: obj.splits)

text \<open>A listener's writes leave every other array as it is, and the heap as long.\<close>

lemma run_script_frame:
  assumes "b < length h" and "h ! b = ArrayObj rs" and "a \<noteq> b"
  shows "length (state_of (run_script a ms h)) = length h
       \<and> state_of (run_script a ms h) ! b = ArrayObj rs"
  using assms
proof (induction ms arbitrary: h)
  case Nil
  then show ?case by simp
next
  case (Cons m ms)
  show ?case
  proof (cases m)
    case (ArrayWrite f)
    with Cons.prems Cons.IH [of "h[a := ArrayObj (f (array_at h a))]"]
    show ?thesis by simp
  next
    case (ElementWrite i f)
    show ?thesis
    proof (cases "i < length (array_at h a)")
      case False
      with ElementWrite Cons.prems show ?thesis by simp
    next
      case True
      show ?thesis
      proof (cases "project_at h (array_at h a ! i)")
        case None
        with True ElementWrite Cons.prems Cons.IH [of h] show ?thesis by simp
      next
        case (Some p)
        then have "array_at h a ! i \<noteq> b"
          using Cons.prems by (auto simp: project_at_Some)
        with Some True ElementWrite Cons.prems
          Cons.IH [of "h[array_at h a ! i := ProjectObj (f p)]"]
        show ?thesis by simp
      qed
    qed
  qed
qed

text \<open>Writes to the array alone leave every other cell as it is.\<close>

lemma run_script_objects:
  assumes "array_writes_only ms" and "r \<noteq> a"
  shows "length (state_of (run_script a ms h)) = length h
       \<and> state_of (run_script a ms h) ! r = h ! r"
  using assms
proof (induction ms arbitrary: h)
  case Nil
  then show ?case by simp
next
  case (Cons m ms)
  then show ?case
    by (cases m) (simp_all add: array_writes_only_def)
qed

lemma call_listeners_ref_frame:
  assumes "projects_ref st < length (heap st)" and "heap st ! projects_ref st = ArrayObj rs"
  shows "projects_ref (state_of (call_listeners_ref ls st)) = projects_ref st
       \<and> length (heap st) \<le> length (heap (state_of (call_listeners_ref ls st)))
       \<and> heap (state_of (call_listeners_ref ls st)) ! projects_ref st = ArrayObj rs"
  using assms
proof (induction ls arbitrary: st)
  case Nil
  then show ?case by simp
next
  case (Cons l ls)
  let ?h1 = "heap st @ [ArrayObj (array_at (heap st) (projects_ref st))]"
  let ?r = "run_script (length (heap st)) l ?h1"
  have b: "projects_ref st < length ?h1" using Cons.prems by simp
  have c: "?h1 ! projects_ref st = ArrayObj rs" using Cons.prems by (simp add: nth_append)
  have ne: "length (heap st) \<noteq> projects_ref st" using Cons.prems by simp
  from run_script_frame [OF b c ne, of l]
  have len: "length (state_of ?r) = Suc (length (heap st))"
    and arr: "state_of ?r ! projects_ref st = ArrayObj rs" by simp_all
  show ?case
  proof (cases ?r)
    case (Thrown h2)
    with len arr show ?thesis by (simp add: alloc_def)
  next
    case (Returned h2)
    with len arr Cons.prems
    have "projects_ref (st\<lparr>heap := h2\<rparr>) < length (heap (st\<lparr>heap := h2\<rparr>))"
      and "heap (st\<lparr>heap := h2\<rparr>) ! projects_ref (st\<lparr>heap := h2\<rparr>) = ArrayObj rs"
      by simp_all
    from Cons.IH [OF this] Returned len show ?thesis by (simp add: alloc_def)
  qed
qed

lemma call_listeners_ref_objects:
  assumes "list_all array_writes_only ls" and "r < length (heap st)"
  shows "length (heap st) \<le> length (heap (state_of (call_listeners_ref ls st)))
       \<and> heap (state_of (call_listeners_ref ls st)) ! r = heap st ! r"
  using assms
proof (induction ls arbitrary: st)
  case Nil
  then show ?case by simp
next
  case (Cons l ls)
  let ?h1 = "heap st @ [ArrayObj (array_at (heap st) (projects_ref st))]"
  let ?r = "run_script (length (heap st)) l ?h1"
  from Cons.prems have l: "array_writes_only l" and ls: "list_all array_writes_only ls"
    and ne: "r \<noteq> length (heap st)" by simp_all
  from run_script_objects [OF l ne, of ?h1] Cons.prems
  have len: "length (state_of ?r) = Suc (length (heap st))"
    and same: "state_of ?r ! r = heap st ! r" by (simp_all add: nth_append)
  show ?case
  proof (cases ?r)
    case (Thrown h2)
    with len same show ?thesis by (simp add: alloc_def)
  next
    case (Returned h2)
    with len Cons.prems have "r < length (heap (st\<lparr>heap := h2\<rparr>))" by simp
    from Cons.IH [OF ls this] Returned len same show ?thesis by (simp add: alloc_def)
  qed
qed

text \<open>
  The heap after \<open>addProject\<close>, whether it returned or a listener raised: the store's
  array is where it was and holds what it held and the address of the new Project; and
  when the listeners wrote to their arrays only, every cell that was there, but the
  store's array, is as it was, and the new cell is the new Project.
\<close>

lemma addProject_ref_heap:
  fixes st :: store_ref and random ttl desc numOfPeople
  assumes "projects_ref st < length (heap st)" and "heap st ! projects_ref st = ArrayObj rs"
  defines "st' \<equiv> state_of (addProject_ref random ttl desc numOfPeople st)"
  defines "new \<equiv> ProjectObj \<lparr>project_id = random, title = ttl, description = desc,
                               people = numOfPeople, status = Active\<rparr>"
  shows "projects_ref st' = projects_ref st"
    and "Suc (length (heap st)) \<le> length (heap st')"
    and "heap st' ! projects_ref st = ArrayObj (rs @ [length (heap st)])"
    and "list_all array_writes_only (listeners_ref st) \<Longrightarrow> heap st' ! length (heap st) = new"
    and "list_all array_writes_only (listeners_ref st) \<Longrightarrow> r < length (heap st) \<Longrightarrow>
         r \<noteq> projects_ref st \<Longrightarrow> heap st' ! r = heap st ! r"
proof -
  let ?h2 = "(heap st @ [new])[projects_ref st := ArrayObj (rs @ [length (heap st)])]"
  let ?st1 = "st\<lparr>heap := ?h2\<rparr>"
  have st': "st' = state_of (call_listeners_ref (listeners_ref st) ?st1)"
    using assms(1,2)
    by (simp add: st'_def new_def addProject_ref_def alloc_def array_at_def nth_append)
  have a: "projects_ref ?st1 < length (heap ?st1)" using assms(1) by simp
  have b: "heap ?st1 ! projects_ref ?st1 = ArrayObj (rs @ [length (heap st)])"
    using assms(1) by simp
  from call_listeners_ref_frame [OF a b, of "listeners_ref st"]
  show "projects_ref st' = projects_ref st"
    and "Suc (length (heap st)) \<le> length (heap st')"
    and "heap st' ! projects_ref st = ArrayObj (rs @ [length (heap st)])"
    by (simp_all add: st')
  have same: "heap st' ! r = heap ?st1 ! r"
    if "list_all array_writes_only (listeners_ref st)" and "r < length (heap ?st1)" for r
    using call_listeners_ref_objects [OF that] by (simp add: st')
  show "heap st' ! length (heap st) = new"
    if "list_all array_writes_only (listeners_ref st)"
    using same [OF that, of "length (heap st)"] assms(1) by simp
  show "heap st' ! r = heap st ! r"
    if "list_all array_writes_only (listeners_ref st)" and "r < length (heap st)"
      and "r \<noteq> projects_ref st"
    using same [OF that(1), of r] that(2,3) by (simp add: nth_append)
qed

text \<open>
  For listeners that write to no element, as the listeners of this program, the
  Projects of the store change as \<open>projects\<close> does in the model without references.
\<close>

lemma store_projects_addProject_ref:
  assumes "projects_ref st < length (heap st)" and "heap st ! projects_ref st = ArrayObj rs"
    and "list_all array_writes_only (listeners_ref st)"
    and "\<forall>r \<in> set rs. r < length (heap st) \<and> r \<noteq> projects_ref st"
  shows "store_projects (state_of (addProject_ref random ttl desc numOfPeople st)) =
           store_projects st @
             [Some \<lparr>project_id = random, title = ttl, description = desc,
                    people = numOfPeople, status = Active\<rparr>]"
proof -
  let ?st' = "state_of (addProject_ref random ttl desc numOfPeople st)"
  note heap = addProject_ref_heap [OF assms(1,2), where random = random and ttl = ttl
      and desc = desc and numOfPeople = numOfPeople]
  have arr: "array_at (heap ?st') (projects_ref ?st') = rs @ [length (heap st)]"
    using heap(1,2,3) assms(1) by (simp add: array_at_def)
  have old: "project_at (heap ?st') r = project_at (heap st) r" if "r \<in> set rs" for r
  proof -
    from assms(4) that have r: "r < length (heap st)" "r \<noteq> projects_ref st" by auto
    from heap(2) heap(5) [OF assms(3) r] r(1) show ?thesis by (simp add: project_at_def)
  qed
  have new: "project_at (heap ?st') (length (heap st)) =
      Some \<lparr>project_id = random, title = ttl, description = desc,
            people = numOfPeople, status = Active\<rparr>"
    using heap(2) heap(4) [OF assms(3)] by (simp add: project_at_def)
  have "array_at (heap st) (projects_ref st) = rs"
    using assms(1,2) by (simp add: array_at_def)
  then show ?thesis
    by (simp add: store_projects_def arr old new)
qed












text \<open>
  Claim C6, as the code has it. Whatever the listeners do with the arrays they are
  passed, and whether or not one of them raises, the store's array is afterwards where
  it was and holds what \<open>addProject\<close> made of it: what it held, in order, and then the
  address of the new Project. When the listeners change their arrays only (add, remove,
  replace or reorder entries), the Projects are unchanged as well: the new one is as
  \<open>addProject\<close> created it, and every cell of the heap that was there, but the store's
  array, is as it was. The copy is shallow, so nothing is said of the Projects when a
  listener writes to a field of an element.
\<close>

theorem snapshot_is_a_shallow_copy:
  fixes st :: store_ref and random ttl desc numOfPeople
  assumes "projects_ref st < length (heap st)" and "heap st ! projects_ref st = ArrayObj rs"
  defines "st' \<equiv> state_of (addProject_ref random ttl desc numOfPeople st)"
  shows "projects_ref st' = projects_ref st
     \<and> array_at (heap st') (projects_ref st') = rs @ [length (heap st)]
     \<and> (list_all array_writes_only (listeners_ref st) \<longrightarrow>
          project_at (heap st') (length (heap st)) =
            Some \<lparr>project_id = random, title = ttl, description = desc,
                  people = numOfPeople, status = Active\<rparr>
          \<and> (\<forall>r < length (heap st). r \<noteq> projects_ref st \<longrightarrow> heap st' ! r = heap st ! r))"
proof -
  note heap = addProject_ref_heap [OF assms(1,2), where random = random and ttl = ttl
      and desc = desc and numOfPeople = numOfPeople, folded st'_def]
  have array: "array_at (heap st') (projects_ref st') = rs @ [length (heap st)]"
    using heap(1,2,3) assms(1) by (simp add: array_at_def)
  have objects: "project_at (heap st') (length (heap st)) =
            Some \<lparr>project_id = random, title = ttl, description = desc,
                  people = numOfPeople, status = Active\<rparr>
          \<and> (\<forall>r < length (heap st). r \<noteq> projects_ref st \<longrightarrow> heap st' ! r = heap st ! r)"
    if "list_all array_writes_only (listeners_ref st)"
    using heap(2) heap(4) [OF that] heap(5) [OF that] by (simp add: project_at_def)
  from heap(1) array objects show ?thesis by blast
qed

theorem snapshot_is_a_shallow_copy_witness:
  "array_at (heap (state_of (addProject_ref (js ''0.5'') (js ''A'') (js ''first'') (Finite 1)
      \<lparr>heap = [ArrayObj []], projects_ref = 0,
       listeners_ref = [[ArrayWrite (\<lambda>rs. []), ArrayWrite (\<lambda>rs. 0 # rs)], []]\<rparr>))) 0 = [1]
   \<and> project_at (heap (state_of (addProject_ref (js ''0.5'') (js ''A'') (js ''first'') (Finite 1)
      \<lparr>heap = [ArrayObj []], projects_ref = 0,
       listeners_ref = [[ArrayWrite (\<lambda>rs. []), ArrayWrite (\<lambda>rs. 0 # rs)], []]\<rparr>))) 1
     = Some \<lparr>project_id = js ''0.5'', title = js ''A'', description = js ''first'',
             people = Finite 1, status = Active\<rparr>"
proof -
  let ?st = "\<lparr>heap = [ArrayObj []], projects_ref = 0,
      listeners_ref = [[ArrayWrite (\<lambda>rs. []), ArrayWrite (\<lambda>rs. 0 # rs)], []]\<rparr>"
  let ?st' = "state_of (addProject_ref (js ''0.5'') (js ''A'') (js ''first'') (Finite 1) ?st)"
  have p1: "projects_ref ?st < length (heap ?st)" by simp
  have p2: "heap ?st ! projects_ref ?st = ArrayObj []" by simp
  note w = snapshot_is_a_shallow_copy
    [OF p1 p2, of "js ''0.5''" "js ''A''" "js ''first''" "Finite 1"]
  from w have "projects_ref ?st' = projects_ref ?st"
    by (rule conjunct1)
  moreover from w have "array_at (heap ?st') (projects_ref ?st') = [] @ [length (heap ?st)]"
    by (rule conjunct2 [THEN conjunct1])
  ultimately have array: "array_at (heap ?st') 0 = [1]" by simp
  from w have "list_all array_writes_only (listeners_ref ?st) \<longrightarrow>
      project_at (heap ?st') (length (heap ?st)) =
        Some \<lparr>project_id = js ''0.5'', title = js ''A'', description = js ''first'',
              people = Finite 1, status = Active\<rparr>"
    by blast
  then have "project_at (heap ?st') 1 =
        Some \<lparr>project_id = js ''0.5'', title = js ''A'', description = js ''first'',
              people = Finite 1, status = Active\<rparr>"
    by (simp add: array_writes_only_def)
  with array show ?thesis by simp
qed

text \<open>
  Claim C6 as stated fails. The store is empty and has one listener. When the listener
  does nothing, the Project that \<open>addProject\<close> adds has the status Active afterwards;
  when the listener sets the status of the first element of the array it is passed, the
  Project of the store has that status afterwards.
\<close>

theorem element_write_reaches_the_store:
  "store_projects (state_of (addProject_ref (js ''0.5'') (js ''A'') (js ''first'') (Finite 1)
      \<lparr>heap = [ArrayObj []], projects_ref = 0, listeners_ref = [[]]\<rparr>))
   = [Some \<lparr>project_id = js ''0.5'', title = js ''A'', description = js ''first'',
            people = Finite 1, status = Active\<rparr>]
   \<and> store_projects (state_of (addProject_ref (js ''0.5'') (js ''A'') (js ''first'') (Finite 1)
      \<lparr>heap = [ArrayObj []], projects_ref = 0,
       listeners_ref = [[ElementWrite 0 (\<lambda>p. p\<lparr>status := Finished\<rparr>)]]\<rparr>))
   = [Some \<lparr>project_id = js ''0.5'', title = js ''A'', description = js ''first'',
            people = Finite 1, status = Finished\<rparr>]"
  by (simp add: store_projects_def addProject_ref_def alloc_def array_at_def project_at_def)

end
